theory Spec2Isabelle
  imports Complex_Main
begin

section \<open>Unit inference for Pyomo expressions (pyomo/core/base/units.py)\<close>

text \<open>
  The module infers the physical unit of an expression tree bottom-up. Every visited node
  yields a pair: the unit as a Pyomo expression and the matching object of the pint
  library. pint itself is an external library: its operators are taken as parameters
  (the record \<open>unit_registry\<close>), so every theorem below holds for whatever values pint
  computes. The operators are total functions on pint's own objects: an exception that
  pint would raise from inside one of them is outside the model.
\<close>

subsection \<open>Data model\<close>

text \<open>
  Slot 0 of a result pair: a Pyomo expression made of \<open>_PyomoUnit\<close> leaves
  (class \<open>_PyomoUnit\<close>, wrapping a pint unit) and of the host's overloaded operators
  \<open>a * b\<close>, \<open>x / a\<close> and \<open>a ** x\<close>, kept symbolic.
\<close>

datatype 'u pyomo_unit =
    PyomoUnit 'u
  | UnitMul "'u pyomo_unit" "'u pyomo_unit"
  | UnitRDiv real "'u pyomo_unit"
  | UnitPow "'u pyomo_unit" real

text \<open>
  Slot 1 of a result pair. The methods document it as a pint unit; Python does not
  enforce that, and \<open>_get_unit_for_pow\<close> stores a Pyomo unit there on one of its
  branches, so the slot is either. A \<open>PintUnit\<close> is an object of pint: a unit, or what
  pint makes of \<open>1.0 / unit\<close>.
\<close>

datatype 'u pyobj =
    PintUnit 'u
  | PyomoObj "'u pyomo_unit"

type_synonym 'u unit_tuple = "'u pyomo_unit \<times> 'u pyobj"

text \<open>
  The classes of expression nodes: the keys of \<open>node_type_method_map\<close>, and
  \<open>OtherExpression\<close> (by class name) for every other class of the host.
\<close>

datatype node_type =
    EqualityExpression
  | InequalityExpression
  | RangedExpression
  | SumExpression
  | NPV_SumExpression
  | ProductExpression
  | MonomialTermExpression
  | NPV_ProductExpression
  | ReciprocalExpression
  | NPV_ReciprocalExpression
  | PowExpression
  | NPV_PowExpression
  | NegationExpression
  | NPV_NegationExpression
  | AbsExpression
  | NPV_AbsExpression
  | UnaryFunctionExpression
  | NPV_UnaryFunctionExpression
  | Expr_ifExpression
  | IndexTemplate
  | GetItemExpression
  | ExternalFunctionExpression
  | NPV_ExternalFunctionExpression
  | LinearExpression
  | OtherExpression string

text \<open>
  What the host tells about a node that is not a native number and not a unit:
  \<open>getname()\<close>, \<open>is_fixed()\<close>, \<open>is_constant()\<close> and \<open>value(node)\<close>, which raises
  ValueError when the node has no value (\<open>None\<close> here).
\<close>

record host_attrs =
  node_name :: string
  node_fixed :: bool
  node_constant :: bool
  node_value :: "real option"

text \<open>
  Expression trees. \<open>NativeNumeric\<close>: a leaf whose type is in \<open>nonpyomo_leaf_types\<close>
  (a Python number); \<open>UnitLeaf\<close>: a \<open>_PyomoUnit\<close>; \<open>OtherLeaf\<close>: any other object whose
  \<open>is_expression_type()\<close> is False (a Var, a Param, an IndexTemplate); \<open>Node\<close>: an
  expression with its class and its \<open>args\<close>; \<open>LinearNode\<close>: a LinearExpression, which
  has no \<open>args\<close> but a constant (\<open>None\<close> when \<open>node.constant\<close> is falsy), \<open>linear_coefs\<close>
  and \<open>linear_vars\<close>.
\<close>

datatype 'u expr =
    NativeNumeric real
  | UnitLeaf 'u
  | OtherLeaf host_attrs
  | Node node_type host_attrs "'u expr list"
  | LinearNode host_attrs "'u expr option" "'u expr list" "'u expr list"

text \<open>The messages of \<open>UnitsError\<close>, each with the objects it formats.\<close>

datatype 'u units_msg =
    ExponentsMustBeDimensionless "'u expr"
  | ExponentNotFixed "'u pyomo_unit"
  | ExpectedDimensionlessUnits "'u expr" "'u pyomo_unit"
  | ExpectedRadians "'u expr" "'u pyomo_unit"
  | ExpectedDimensionlessArgument "'u expr" "'u pyomo_unit"

datatype unhandled =
    UnhandledNodeType node_type
  | UnhandledUnaryFunction string

text \<open>
  Every exception the module can let out. \<open>UnitsError\<close>, \<open>InconsistentUnitsError\<close>
  (its subclass: the two operands and the parent node) and \<open>TypeError\<close> are raised by
  the module; \<open>AssertionError\<close>, \<open>UnboundLocalError\<close> and \<open>IndexError\<close> come from its
  assertions, loop variables and list reads; \<open>ValueError\<close> from the host's \<open>value()\<close>;
  \<open>AttributeError\<close> from attribute access; \<open>UndefinedUnitError\<close> and \<open>PintError\<close> from
  pint.
\<close>

datatype 'u error =
    UnitsError "'u units_msg"
  | InconsistentUnitsError "'u pyobj" "'u pyobj" "'u expr"
  | TypeError unhandled
  | AssertionError
  | UnboundLocalError
  | IndexError
  | ValueError
  | AttributeError string
  | UndefinedUnitError
  | PintError string

type_synonym 'u result = "'u error + 'u unit_tuple"

text \<open>What \<open>getattr(ureg, item)\<close> of a pint registry does.\<close>

datatype 'u pint_lookup =
    Found 'u
  | FoundNone
  | RaisesUndefinedUnit
  | RaisesOther string

text \<open>
  The pint library, as the module uses it: \<open>lhs == rhs\<close>, \<open>(1.0 * x).dimensionality\<close>,
  \<open>abs(1.0 * lhs - 1.0 * rhs).magnitude\<close>, \<open>a * b\<close>, \<open>a ** x\<close>, \<open>x / a\<close>, \<open>str\<close>, the
  registry's units \<open>dimensionless\<close> and \<open>radians\<close>, and \<open>getattr(ureg, item)\<close>. The
  operators are pint's, on objects of pint.
\<close>

record ('u, 'd) unit_registry =
  pint_eq :: "'u \<Rightarrow> 'u \<Rightarrow> bool"
  pint_dimensionality :: "'u \<Rightarrow> 'd"
  pint_diff_magnitude :: "'u \<Rightarrow> 'u \<Rightarrow> real"
  pint_mul :: "'u \<Rightarrow> 'u \<Rightarrow> 'u"
  pint_pow :: "'u \<Rightarrow> real \<Rightarrow> 'u"
  pint_rdiv :: "real \<Rightarrow> 'u \<Rightarrow> 'u"
  pint_str :: "'u \<Rightarrow> string"
  pint_dimensionless :: 'u
  pint_radians :: 'u
  pint_getattr :: "string \<Rightarrow> 'u pint_lookup"

text \<open>
  The visitor \<open>_UnitExtractionVisitor\<close>: the registry of its units container and the
  tolerance of the equivalence test, 1e-12 unless given.
\<close>

record ('u, 'd) visitor =
  pint_ureg :: "('u, 'd) unit_registry"
  units_equivalence_tolerance :: real

definition new_visitor :: "('u, 'd) unit_registry \<Rightarrow> ('u, 'd) visitor" where
  "new_visitor R = \<lparr>pint_ureg = R, units_equivalence_tolerance = 1 / 10 ^ 12\<rparr>"

text \<open>\<open>self._pyomo_units_container.dimensionless\<close> paired with \<open>self._pint_ureg.dimensionless\<close>.\<close>

definition dimensionless_tuple :: "('u, 'd) visitor \<Rightarrow> 'u unit_tuple" where
  "dimensionless_tuple V =
     (PyomoUnit (pint_dimensionless (pint_ureg V)), PintUnit (pint_dimensionless (pint_ureg V)))"

definition radians_tuple :: "('u, 'd) visitor \<Rightarrow> 'u unit_tuple" where
  "radians_tuple V =
     (PyomoUnit (pint_radians (pint_ureg V)), PintUnit (pint_radians (pint_ureg V)))"

subsection \<open>Equivalence of units\<close>

text \<open>
  What \<open>lhs == rhs\<close> at the head of \<open>_pint_units_equivalent\<close> does when an operand is a
  \<open>_PyomoUnit\<close>: the class takes \<open>__eq__\<close> from the host's \<open>NumericValue\<close>, which is
  not part of the module and is reached whether the \<open>_PyomoUnit\<close> stands on the left or
  (pint's comparison giving up) on the right. It asks the other operand, an object of
  pint, whether it is relational, and that raises AttributeError.
\<close>

definition not_a_pint_unit :: "'u error" where
  "not_a_pint_unit = AttributeError ''is_relational''"

text \<open>
  \<open>_pint_units_equivalent\<close>: equal units, or the same dimensionality and a difference
  below the tolerance. On anything but two objects of pint the first comparison raises.
\<close>

fun pint_units_equivalent ::
  "('u, 'd) visitor \<Rightarrow> 'u pyobj \<Rightarrow> 'u pyobj \<Rightarrow> 'u error + bool" where
  "pint_units_equivalent V (PintUnit lhs) (PintUnit rhs) =
     (if pint_eq (pint_ureg V) lhs rhs then Inr True
      else if pint_dimensionality (pint_ureg V) lhs = pint_dimensionality (pint_ureg V) rhs
              \<and> pint_diff_magnitude (pint_ureg V) lhs rhs < units_equivalence_tolerance V
      then Inr True
      else Inr False)"
| "pint_units_equivalent V lhs rhs = Inl not_a_pint_unit"

text \<open>
  The test most rules make of a child:
  \<open>self._pint_units_equivalent(pint_unit, self._pint_ureg.dimensionless)\<close>.
\<close>

definition is_dimensionless :: "('u, 'd) visitor \<Rightarrow> 'u pyobj \<Rightarrow> 'u error + bool" where
  "is_dimensionless V pint_unit =
     pint_units_equivalent V pint_unit (PintUnit (pint_dimensionless (pint_ureg V)))"

text \<open>
  The object of slot 1 as an operand of pint's arithmetic. The rules compute with it
  only after an equivalence test of the same object has returned, and the test raises on
  an object that is not of pint; the second case repeats that exception and is never
  reached.
\<close>

fun pint_operand :: "'u pyobj \<Rightarrow> 'u error + 'u" where
  "pint_operand (PintUnit u) = Inr u"
| "pint_operand (PyomoObj p) = Inl not_a_pint_unit"

subsection \<open>What the rules read of the host's nodes\<close>

text \<open>\<open>node.args\<close>: the children of an expression; a leaf has no such attribute.\<close>

fun args :: "'u expr \<Rightarrow> 'u error + 'u expr list" where
  "args (Node t a xs) = Inr xs"
| "args (LinearNode a c coefs vars) = Inr []"
| "args (NativeNumeric x) = Inl (AttributeError ''args'')"
| "args (UnitLeaf u) = Inl (AttributeError ''args'')"
| "args (OtherLeaf a) = Inl (AttributeError ''args'')"

text \<open>\<open>node.args[1]\<close>.\<close>

definition arg1 :: "'u expr \<Rightarrow> 'u error + 'u expr" where
  "arg1 node =
     (case args node of
        Inl e \<Rightarrow> Inl e
      | Inr xs \<Rightarrow> (if 1 < length xs then Inr (xs ! 1) else Inl IndexError))"

text \<open>\<open>type(e) in nonpyomo_leaf_types\<close>.\<close>

fun is_native :: "'u expr \<Rightarrow> bool" where
  "is_native (NativeNumeric x) = True"
| "is_native e = False"

text \<open>
  \<open>e.is_fixed()\<close> and \<open>e.is_constant()\<close>: True and False on a \<open>_PyomoUnit\<close>, the
  host's answer elsewhere. Neither is called on a native number.
\<close>

fun is_fixed :: "'u expr \<Rightarrow> bool" where
  "is_fixed (UnitLeaf u) = True"
| "is_fixed (OtherLeaf a) = node_fixed a"
| "is_fixed (Node t a xs) = node_fixed a"
| "is_fixed (LinearNode a c coefs vars) = node_fixed a"
| "is_fixed (NativeNumeric x) = True"

fun is_constant :: "'u expr \<Rightarrow> bool" where
  "is_constant (UnitLeaf u) = False"
| "is_constant (OtherLeaf a) = node_constant a"
| "is_constant (Node t a xs) = node_constant a"
| "is_constant (LinearNode a c coefs vars) = node_constant a"
| "is_constant (NativeNumeric x) = True"

text \<open>
  \<open>value(e)\<close>: the number itself, 1.0 for a \<open>_PyomoUnit\<close> (its \<open>__call__\<close>), the host's
  value elsewhere, ValueError when there is none.
\<close>

fun value_of :: "'u expr \<Rightarrow> 'u error + real" where
  "value_of (NativeNumeric x) = Inr x"
| "value_of (UnitLeaf u) = Inr 1"
| "value_of (OtherLeaf a) = (case node_value a of None \<Rightarrow> Inl ValueError | Some v \<Rightarrow> Inr v)"
| "value_of (Node t a xs) = (case node_value a of None \<Rightarrow> Inl ValueError | Some v \<Rightarrow> Inr v)"
| "value_of (LinearNode a c coefs vars) =
     (case node_value a of None \<Rightarrow> Inl ValueError | Some v \<Rightarrow> Inr v)"

text \<open>\<open>node.getname()\<close>: \<open>str(self)\<close> on a \<open>_PyomoUnit\<close>; a native number has no such method.\<close>

fun getname :: "('u, 'd) unit_registry \<Rightarrow> 'u expr \<Rightarrow> 'u error + string" where
  "getname R (Node t a xs) = Inr (node_name a)"
| "getname R (LinearNode a c coefs vars) = Inr (node_name a)"
| "getname R (OtherLeaf a) = Inr (node_name a)"
| "getname R (UnitLeaf u) = Inr (pint_str R u)"
| "getname R (NativeNumeric x) = Inl (AttributeError ''getname'')"

text \<open>\<open>is_leaf(expr)\<close>: a native type, or \<open>is_expression_type()\<close> is False.\<close>

fun is_leaf :: "'u expr \<Rightarrow> bool" where
  "is_leaf (NativeNumeric x) = True"
| "is_leaf (UnitLeaf u) = True"
| "is_leaf (OtherLeaf a) = True"
| "is_leaf (Node t a xs) = False"
| "is_leaf (LinearNode a c coefs vars) = False"

subsection \<open>The rules of the visitor\<close>

text \<open>
  \<open>_get_unit_for_equivalent_children\<close>. The loop compares child 0 with each later
  child and raises at the first that is not equivalent to it.
\<close>

fun equivalent_to_first ::
  "('u, 'd) visitor \<Rightarrow> 'u expr \<Rightarrow> 'u pyobj \<Rightarrow> 'u unit_tuple list \<Rightarrow> 'u error option" where
  "equivalent_to_first V node pint_unit_0 [] = None"
| "equivalent_to_first V node pint_unit_0 (t # ts) =
     (case pint_units_equivalent V pint_unit_0 (snd t) of
        Inl e \<Rightarrow> Some e
      | Inr equivalent \<Rightarrow>
          (if \<not> equivalent then Some (InconsistentUnitsError pint_unit_0 (snd t) node)
           else equivalent_to_first V node pint_unit_0 ts))"

definition get_unit_for_equivalent_children ::
  "('u, 'd) visitor \<Rightarrow> 'u expr \<Rightarrow> 'u unit_tuple list \<Rightarrow> 'u result" where
  "get_unit_for_equivalent_children V node list_of_unit_tuples =
     (case list_of_unit_tuples of
        [] \<Rightarrow> Inl AssertionError
      | t0 # ts \<Rightarrow>
          (case equivalent_to_first V node (snd t0) ts of
             Some e \<Rightarrow> Inl e
           | None \<Rightarrow> Inr (fst t0, snd t0)))"

text \<open>
  \<open>_get_unit_for_product\<close>. The loop skips the children equivalent to dimensionless
  and multiplies the others from the left; the accumulator is \<open>None\<close> until the first
  child with units.
\<close>

fun product_loop ::
  "('u, 'd) visitor \<Rightarrow> ('u pyomo_unit \<times> 'u) option \<Rightarrow> 'u unit_tuple list \<Rightarrow>
   'u error + ('u pyomo_unit \<times> 'u) option" where
  "product_loop V acc [] = Inr acc"
| "product_loop V acc ((pyomo_unit_i, pint_unit_i) # ts) =
     (case is_dimensionless V pint_unit_i of
        Inl e \<Rightarrow> Inl e
      | Inr dimensionless_i \<Rightarrow>
          (if dimensionless_i then product_loop V acc ts
           else (case pint_operand pint_unit_i of
                   Inl e \<Rightarrow> Inl e
                 | Inr u_i \<Rightarrow>
                     (case acc of
                        None \<Rightarrow> product_loop V (Some (pyomo_unit_i, u_i)) ts
                      | Some (pyomo_unit, pint_unit) \<Rightarrow>
                          product_loop V
                            (Some (UnitMul pyomo_unit pyomo_unit_i,
                                   pint_mul (pint_ureg V) pint_unit u_i)) ts))))"

definition get_unit_for_product ::
  "('u, 'd) visitor \<Rightarrow> 'u expr \<Rightarrow> 'u unit_tuple list \<Rightarrow> 'u result" where
  "get_unit_for_product V node list_of_unit_tuples =
     (if \<not> 1 < length list_of_unit_tuples then Inl AssertionError
      else (case product_loop V None list_of_unit_tuples of
              Inl e \<Rightarrow> Inl e
            | Inr None \<Rightarrow> Inr (dimensionless_tuple V)
            | Inr (Some (pyomo_unit, pint_unit)) \<Rightarrow> Inr (pyomo_unit, PintUnit pint_unit)))"

text \<open>\<open>_get_unit_for_reciprocal\<close>.\<close>

definition get_unit_for_reciprocal ::
  "('u, 'd) visitor \<Rightarrow> 'u expr \<Rightarrow> 'u unit_tuple list \<Rightarrow> 'u result" where
  "get_unit_for_reciprocal V node list_of_unit_tuples =
     (case list_of_unit_tuples of
        [(pyomo_unit, pint_unit)] \<Rightarrow>
          (case is_dimensionless V pint_unit of
             Inl e \<Rightarrow> Inl e
           | Inr dimensionless \<Rightarrow>
               (if dimensionless then Inr (pyomo_unit, pint_unit)
                else (case pint_operand pint_unit of
                        Inl e \<Rightarrow> Inl e
                      | Inr u \<Rightarrow>
                          Inr (UnitRDiv 1 pyomo_unit, PintUnit (pint_rdiv (pint_ureg V) 1 u)))))
      | _ \<Rightarrow> Inl AssertionError)"

text \<open>
  \<open>_get_unit_for_pow\<close>. On a dimensionless base the method returns
  \<open>(pyomo_unit_base, pyomo_unit_exponent)\<close>: the exponent's Pyomo unit goes into slot 1.
\<close>

definition get_unit_for_pow ::
  "('u, 'd) visitor \<Rightarrow> 'u expr \<Rightarrow> 'u unit_tuple list \<Rightarrow> 'u result" where
  "get_unit_for_pow V node list_of_unit_tuples =
     (case list_of_unit_tuples of
        [(pyomo_unit_base, pint_unit_base), (pyomo_unit_exponent, pint_unit_exponent)] \<Rightarrow>
          (case is_dimensionless V pint_unit_exponent of
             Inl e \<Rightarrow> Inl e
           | Inr exponent_dimensionless \<Rightarrow>
               (if \<not> exponent_dimensionless
                then Inl (UnitsError (ExponentsMustBeDimensionless node))
                else (case is_dimensionless V pint_unit_base of
                        Inl e \<Rightarrow> Inl e
                      | Inr base_dimensionless \<Rightarrow>
                          (if base_dimensionless
                           then Inr (pyomo_unit_base, PyomoObj pyomo_unit_exponent)
                           else (case arg1 node of
                                   Inl e \<Rightarrow> Inl e
                                 | Inr exponent \<Rightarrow>
                                     (if \<not> is_native exponent
                                          \<and> \<not> (is_fixed exponent \<or> is_constant exponent)
                                      then Inl (UnitsError (ExponentNotFixed pyomo_unit_base))
                                      else (case value_of exponent of
                                              Inl e \<Rightarrow> Inl e
                                            | Inr exponent_value \<Rightarrow>
                                                (case pint_operand pint_unit_base of
                                                   Inl e \<Rightarrow> Inl e
                                                 | Inr u \<Rightarrow>
                                                     Inr (UnitPow pyomo_unit_base exponent_value,
                                                          PintUnit (pint_pow (pint_ureg V) u
                                                                      exponent_value))))))))))
      | _ \<Rightarrow> Inl AssertionError)"

text \<open>\<open>_get_unit_for_single_child\<close>.\<close>

definition get_unit_for_single_child ::
  "('u, 'd) visitor \<Rightarrow> 'u expr \<Rightarrow> 'u unit_tuple list \<Rightarrow> 'u result" where
  "get_unit_for_single_child V node list_of_unit_tuples =
     (case list_of_unit_tuples of
        [(pyomo_unit, pint_unit)] \<Rightarrow> Inr (pyomo_unit, pint_unit)
      | _ \<Rightarrow> Inl AssertionError)"

text \<open>
  \<open>_get_dimensionless_with_dimensionless_children\<close>. After the loop the method returns
  its loop variables \<open>(pyomo_unit, pint_unit)\<close>: the last child's pair, and no binding at
  all (UnboundLocalError) when the list is empty. \<open>bound\<close> is the pair the loop variables
  hold.
\<close>

fun dimensionless_children_loop ::
  "('u, 'd) visitor \<Rightarrow> 'u expr \<Rightarrow> 'u unit_tuple option \<Rightarrow> 'u unit_tuple list \<Rightarrow> 'u result" where
  "dimensionless_children_loop V node bound [] =
     (case bound of None \<Rightarrow> Inl UnboundLocalError | Some t \<Rightarrow> Inr t)"
| "dimensionless_children_loop V node bound (t # ts) =
     (case is_dimensionless V (snd t) of
        Inl e \<Rightarrow> Inl e
      | Inr dimensionless \<Rightarrow>
          (if \<not> dimensionless
           then Inl (UnitsError (ExpectedDimensionlessUnits node (fst t)))
           else dimensionless_children_loop V node (Some (fst t, snd t)) ts))"

definition get_dimensionless_with_dimensionless_children ::
  "('u, 'd) visitor \<Rightarrow> 'u expr \<Rightarrow> 'u unit_tuple list \<Rightarrow> 'u result" where
  "get_dimensionless_with_dimensionless_children V node list_of_unit_tuples =
     dimensionless_children_loop V node None list_of_unit_tuples"

text \<open>\<open>_get_dimensionless_no_children\<close>.\<close>

definition get_dimensionless_no_children ::
  "('u, 'd) visitor \<Rightarrow> 'u expr \<Rightarrow> 'u unit_tuple list \<Rightarrow> 'u result" where
  "get_dimensionless_no_children V node list_of_unit_tuples =
     (if list_of_unit_tuples \<noteq> [] then Inl AssertionError
      else if \<not> is_leaf node then Inl AssertionError
      else Inr (dimensionless_tuple V))"

text \<open>\<open>_get_unit_for_expr_if\<close>: the error carries the Pyomo units of the two branches.\<close>

definition get_unit_for_expr_if ::
  "('u, 'd) visitor \<Rightarrow> 'u expr \<Rightarrow> 'u unit_tuple list \<Rightarrow> 'u result" where
  "get_unit_for_expr_if V node list_of_unit_tuples =
     (case list_of_unit_tuples of
        [if_units, (then_pyomo_unit, then_pint_unit), (else_pyomo_unit, else_pint_unit)] \<Rightarrow>
          (case pint_units_equivalent V then_pint_unit else_pint_unit of
             Inl e \<Rightarrow> Inl e
           | Inr equivalent \<Rightarrow>
               (if \<not> equivalent
                then Inl (InconsistentUnitsError (PyomoObj then_pyomo_unit)
                            (PyomoObj else_pyomo_unit) node)
                else Inr (then_pyomo_unit, then_pint_unit)))
      | _ \<Rightarrow> Inl AssertionError)"

text \<open>\<open>_get_dimensionless_with_radians_child\<close>.\<close>

definition get_dimensionless_with_radians_child ::
  "('u, 'd) visitor \<Rightarrow> 'u expr \<Rightarrow> 'u unit_tuple list \<Rightarrow> 'u result" where
  "get_dimensionless_with_radians_child V node list_of_unit_tuples =
     (case list_of_unit_tuples of
        [(pyomo_unit, pint_unit)] \<Rightarrow>
          (case pint_units_equivalent V pint_unit (PintUnit (pint_radians (pint_ureg V))) of
             Inl e \<Rightarrow> Inl e
           | Inr radians \<Rightarrow>
               (if \<not> radians then Inl (UnitsError (ExpectedRadians node pyomo_unit))
                else Inr (dimensionless_tuple V)))
      | _ \<Rightarrow> Inl AssertionError)"

text \<open>\<open>_get_radians_with_dimensionless_child\<close>.\<close>

definition get_radians_with_dimensionless_child ::
  "('u, 'd) visitor \<Rightarrow> 'u expr \<Rightarrow> 'u unit_tuple list \<Rightarrow> 'u result" where
  "get_radians_with_dimensionless_child V node list_of_unit_tuples =
     (case list_of_unit_tuples of
        [(pyomo_unit, pint_unit)] \<Rightarrow>
          (case is_dimensionless V pint_unit of
             Inl e \<Rightarrow> Inl e
           | Inr dimensionless \<Rightarrow>
               (if \<not> dimensionless
                then Inl (UnitsError (ExpectedDimensionlessArgument node pyomo_unit))
                else Inr (radians_tuple V)))
      | _ \<Rightarrow> Inl AssertionError)"

text \<open>\<open>_get_unit_sqrt\<close>.\<close>

definition get_unit_sqrt ::
  "('u, 'd) visitor \<Rightarrow> 'u expr \<Rightarrow> 'u unit_tuple list \<Rightarrow> 'u result" where
  "get_unit_sqrt V node list_of_unit_tuples =
     (case list_of_unit_tuples of
        [(pyomo_unit, pint_unit)] \<Rightarrow>
          (case is_dimensionless V pint_unit of
             Inl e \<Rightarrow> Inl e
           | Inr dimensionless \<Rightarrow>
               (if dimensionless then Inr (dimensionless_tuple V)
                else (case pint_operand pint_unit of
                        Inl e \<Rightarrow> Inl e
                      | Inr u \<Rightarrow>
                          Inr (UnitPow pyomo_unit (1 / 2),
                               PintUnit (pint_pow (pint_ureg V) u (1 / 2))))))
      | _ \<Rightarrow> Inl AssertionError)"

text \<open>
  \<open>_get_unit_for_linear_expression\<close>. A LinearExpression has no \<open>args\<close>, so the method
  walks the constant, the variables and the coefficients itself, each with a new visitor
  (\<open>_get_units_tuple\<close>). \<open>linear_term_unit\<close> is the unit of one term; the recursion that
  collects \<open>term_unit_list\<close> is part of the walk below and its outcome is handed to the
  method.
\<close>

definition linear_term_unit ::
  "('u, 'd) visitor \<Rightarrow> 'u unit_tuple \<Rightarrow> 'u unit_tuple \<Rightarrow> 'u result" where
  "linear_term_unit V c_units v_units =
     (case is_dimensionless V (snd c_units) of
        Inl e \<Rightarrow> Inl e
      | Inr c_dimensionless \<Rightarrow>
          (if c_dimensionless then Inr (fst v_units, snd v_units)
           else (case is_dimensionless V (snd v_units) of
                   Inl e \<Rightarrow> Inl e
                 | Inr v_dimensionless \<Rightarrow>
                     (if v_dimensionless then Inr (fst c_units, snd c_units)
                      else (case pint_operand (snd c_units) of
                              Inl e \<Rightarrow> Inl e
                            | Inr c \<Rightarrow>
                                (case pint_operand (snd v_units) of
                                   Inl e \<Rightarrow> Inl e
                                 | Inr v \<Rightarrow>
                                     Inr (UnitMul (fst c_units) (fst v_units),
                                          PintUnit (pint_mul (pint_ureg V) c v))))))))"

definition get_unit_for_linear_expression ::
  "('u, 'd) visitor \<Rightarrow> 'u expr \<Rightarrow> 'u unit_tuple list \<Rightarrow>
   'u error + 'u unit_tuple list \<Rightarrow> 'u result" where
  "get_unit_for_linear_expression V node list_of_unit_tuples term_unit_list =
     (if list_of_unit_tuples \<noteq> [] then Inl AssertionError
      else (case term_unit_list of
              Inl e \<Rightarrow> Inl e
            | Inr [] \<Rightarrow> Inl IndexError
            | Inr (t0 # ts) \<Rightarrow>
                (case equivalent_to_first V node (snd t0) ts of
                   Some e \<Rightarrow> Inl e
                 | None \<Rightarrow> Inr (fst t0, snd t0))))"

subsection \<open>The dispatch tables\<close>

text \<open>
  \<open>unary_function_method_map\<close>: from the name of a unary function to the method that
  gives its unit.
\<close>

definition unary_function_method_map ::
  "string \<Rightarrow> (('u, 'd) visitor \<Rightarrow> 'u expr \<Rightarrow> 'u unit_tuple list \<Rightarrow> 'u result) option" where
  "unary_function_method_map =
     map_of
       [(''log'', get_dimensionless_with_dimensionless_children),
        (''log10'', get_dimensionless_with_dimensionless_children),
        (''sin'', get_dimensionless_with_radians_child),
        (''cos'', get_dimensionless_with_radians_child),
        (''tan'', get_dimensionless_with_radians_child),
        (''sinh'', get_dimensionless_with_radians_child),
        (''cosh'', get_dimensionless_with_radians_child),
        (''tanh'', get_dimensionless_with_radians_child),
        (''asin'', get_radians_with_dimensionless_child),
        (''acos'', get_radians_with_dimensionless_child),
        (''atan'', get_radians_with_dimensionless_child),
        (''exp'', get_dimensionless_with_dimensionless_children),
        (''sqrt'', get_unit_sqrt),
        (''asinh'', get_radians_with_dimensionless_child),
        (''acosh'', get_radians_with_dimensionless_child),
        (''atanh'', get_radians_with_dimensionless_child),
        (''ceil'', get_unit_for_single_child),
        (''floor'', get_unit_for_single_child)]"

text \<open>\<open>_get_unit_for_unary_function\<close>.\<close>

definition get_unit_for_unary_function ::
  "('u, 'd) visitor \<Rightarrow> 'u expr \<Rightarrow> 'u unit_tuple list \<Rightarrow> 'u result" where
  "get_unit_for_unary_function V node list_of_unit_tuples =
     (if length list_of_unit_tuples \<noteq> 1 then Inl AssertionError
      else (case getname (pint_ureg V) node of
              Inl e \<Rightarrow> Inl e
            | Inr func_name \<Rightarrow>
                (case unary_function_method_map func_name of
                   Some node_func \<Rightarrow> node_func V node list_of_unit_tuples
                 | None \<Rightarrow> Inl (TypeError (UnhandledUnaryFunction func_name)))))"

text \<open>
  An entry of \<open>node_type_method_map\<close>: a method of the visitor, or \<open>LinearMethod\<close> for
  \<open>_get_unit_for_linear_expression\<close>, which takes the term units as well.
\<close>

datatype ('u, 'd) node_method =
    Method "('u, 'd) visitor \<Rightarrow> 'u expr \<Rightarrow> 'u unit_tuple list \<Rightarrow> 'u result"
  | LinearMethod

fun node_type_method_map :: "node_type \<Rightarrow> ('u, 'd) node_method option" where
  "node_type_method_map EqualityExpression = Some (Method get_unit_for_equivalent_children)"
| "node_type_method_map InequalityExpression = Some (Method get_unit_for_equivalent_children)"
| "node_type_method_map RangedExpression = Some (Method get_unit_for_equivalent_children)"
| "node_type_method_map SumExpression = Some (Method get_unit_for_equivalent_children)"
| "node_type_method_map NPV_SumExpression = Some (Method get_unit_for_equivalent_children)"
| "node_type_method_map ProductExpression = Some (Method get_unit_for_product)"
| "node_type_method_map MonomialTermExpression = Some (Method get_unit_for_product)"
| "node_type_method_map NPV_ProductExpression = Some (Method get_unit_for_product)"
| "node_type_method_map ReciprocalExpression = Some (Method get_unit_for_reciprocal)"
| "node_type_method_map NPV_ReciprocalExpression = Some (Method get_unit_for_reciprocal)"
| "node_type_method_map PowExpression = Some (Method get_unit_for_pow)"
| "node_type_method_map NPV_PowExpression = Some (Method get_unit_for_pow)"
| "node_type_method_map NegationExpression = Some (Method get_unit_for_single_child)"
| "node_type_method_map NPV_NegationExpression = Some (Method get_unit_for_single_child)"
| "node_type_method_map AbsExpression = Some (Method get_unit_for_single_child)"
| "node_type_method_map NPV_AbsExpression = Some (Method get_unit_for_single_child)"
| "node_type_method_map UnaryFunctionExpression = Some (Method get_unit_for_unary_function)"
| "node_type_method_map NPV_UnaryFunctionExpression = Some (Method get_unit_for_unary_function)"
| "node_type_method_map Expr_ifExpression = Some (Method get_unit_for_expr_if)"
| "node_type_method_map IndexTemplate = Some (Method get_dimensionless_no_children)"
| "node_type_method_map GetItemExpression =
     Some (Method get_dimensionless_with_dimensionless_children)"
| "node_type_method_map ExternalFunctionExpression =
     Some (Method get_dimensionless_with_dimensionless_children)"
| "node_type_method_map NPV_ExternalFunctionExpression =
     Some (Method get_dimensionless_with_dimensionless_children)"
| "node_type_method_map LinearExpression = Some LinearMethod"
| "node_type_method_map (OtherExpression c) = None"

subsection \<open>The visit of one node\<close>

text \<open>\<open>type(node)\<close> of a node that is not a leaf.\<close>

fun type_of :: "'u expr \<Rightarrow> node_type" where
  "type_of (Node t a xs) = t"
| "type_of (LinearNode a c coefs vars) = LinearExpression"
| "type_of e = OtherExpression ''leaf''"

text \<open>
  \<open>exitNode(node, data)\<close>: a leaf gives its own unit or dimensionless; any other node
  goes through \<open>node_type_method_map\<close>, and a class that is not a key raises TypeError.
  \<open>term_unit_list\<close> is read by the method of a LinearExpression only.
\<close>

definition exitNode ::
  "('u, 'd) visitor \<Rightarrow> 'u expr \<Rightarrow> 'u unit_tuple list \<Rightarrow>
   'u error + 'u unit_tuple list \<Rightarrow> 'u result" where
  "exitNode V node data term_unit_list =
     (if is_leaf node then
        (case node of
           UnitLeaf u \<Rightarrow> Inr (PyomoUnit u, PintUnit u)
         | _ \<Rightarrow> Inr (dimensionless_tuple V))
      else
        (case node_type_method_map (type_of node) of
           Some (Method node_func) \<Rightarrow> node_func V node data
         | Some LinearMethod \<Rightarrow> get_unit_for_linear_expression V node data term_unit_list
         | None \<Rightarrow> Inl (TypeError (UnhandledNodeType (type_of node)))))"

subsection \<open>The walk\<close>

text \<open>
  Modelled from the spec: \<open>StreamBasedExpressionVisitor.walk_expression\<close>, the host's
  walker, is not part of the module. It is the generic post-order, single-pass walk: the
  children of a node (its \<open>args\<close>; none for a leaf and for a LinearExpression) are walked
  from left to right, then \<open>exitNode\<close> gets the node and the list of their results; the
  first exception ends the walk.

  \<open>linear_terms\<close> is the loop of \<open>_get_unit_for_linear_expression\<close> over
  \<open>enumerate(node.linear_vars)\<close>: for each term the variable is walked, then the
  coefficient \<open>node.linear_coefs[k]\<close>. The constant, when truthy, is walked first, and
  the assertion on the two lengths stands between the constant and the loop.
\<close>

function (sequential) walk_expression :: "('u, 'd) visitor \<Rightarrow> 'u expr \<Rightarrow> 'u result"
  and walk_children :: "('u, 'd) visitor \<Rightarrow> 'u expr list \<Rightarrow> 'u error + 'u unit_tuple list"
  and linear_terms ::
    "('u, 'd) visitor \<Rightarrow> 'u expr list \<Rightarrow> 'u expr list \<Rightarrow> 'u error + 'u unit_tuple list"
where
  "walk_expression V (NativeNumeric x) = exitNode V (NativeNumeric x) [] (Inr [])"
| "walk_expression V (UnitLeaf u) = exitNode V (UnitLeaf u) [] (Inr [])"
| "walk_expression V (OtherLeaf a) = exitNode V (OtherLeaf a) [] (Inr [])"
| "walk_expression V (Node t a xs) =
     (case walk_children V xs of
        Inl e \<Rightarrow> Inl e
      | Inr data \<Rightarrow> exitNode V (Node t a xs) data (Inr []))"
| "walk_expression V (LinearNode a None coefs vars) =
     exitNode V (LinearNode a None coefs vars) []
       (if length coefs \<noteq> length vars then Inl AssertionError
        else linear_terms V vars coefs)"
| "walk_expression V (LinearNode a (Some c) coefs vars) =
     exitNode V (LinearNode a (Some c) coefs vars) []
       (case walk_expression (new_visitor (pint_ureg V)) c of
          Inl e \<Rightarrow> Inl e
        | Inr const_units \<Rightarrow>
            (if length coefs \<noteq> length vars then Inl AssertionError
             else (case linear_terms V vars coefs of
                     Inl e \<Rightarrow> Inl e
                   | Inr ts \<Rightarrow> Inr (const_units # ts))))"
| "walk_children V [] = Inr []"
| "walk_children V (x # xs) =
     (case walk_expression V x of
        Inl e \<Rightarrow> Inl e
      | Inr r \<Rightarrow> (case walk_children V xs of Inl e \<Rightarrow> Inl e | Inr rs \<Rightarrow> Inr (r # rs)))"
| "linear_terms V [] coefs = Inr []"
| "linear_terms V (v # vars) [] = Inl IndexError"
| "linear_terms V (v # vars) (c # coefs) =
     (case walk_expression (new_visitor (pint_ureg V)) v of
        Inl e \<Rightarrow> Inl e
      | Inr v_units \<Rightarrow>
          (case walk_expression (new_visitor (pint_ureg V)) c of
             Inl e \<Rightarrow> Inl e
           | Inr c_units \<Rightarrow>
               (case linear_term_unit V c_units v_units of
                  Inl e \<Rightarrow> Inl e
                | Inr term \<Rightarrow>
                    (case linear_terms V vars coefs of
                       Inl e \<Rightarrow> Inl e
                     | Inr ts \<Rightarrow> Inr (term # ts)))))"
  by pat_completeness auto
termination
  by (relation "measure (case_sum (\<lambda>(V, e). size e)
        (case_sum (\<lambda>(V, xs). size_list size xs)
           (\<lambda>(V, vs, cs). size_list size vs + size_list size cs)))") auto

subsection \<open>The public functions\<close>

text \<open>\<open>_get_units_tuple\<close>: a new visitor with the default tolerance walks the expression.\<close>

definition get_units_tuple :: "('u, 'd) unit_registry \<Rightarrow> 'u expr \<Rightarrow> 'u result" where
  "get_units_tuple R e = walk_expression (new_visitor R) e"

text \<open>\<open>get_units\<close>: the Pyomo unit of the pair.\<close>

definition get_units :: "('u, 'd) unit_registry \<Rightarrow> 'u expr \<Rightarrow> 'u error + 'u pyomo_unit" where
  "get_units R e =
     (case get_units_tuple R e of
        Inl er \<Rightarrow> Inl er
      | Inr (pyomo_unit, pint_unit) \<Rightarrow> Inr pyomo_unit)"

text \<open>The Python values a caller can pass for \<open>allow_exceptions\<close>.\<close>

datatype pyval =
    PyBool bool
  | PyInt int
  | PyFloat real
  | PyStr string
  | PyNone

text \<open>
  \<open>check_units_consistency\<close>. \<open>allow_exceptions is True\<close> holds of the object \<open>True\<close>
  only. On the other branch a bare \<open>except:\<close> turns every exception into False.
\<close>

definition check_units_consistency ::
  "('u, 'd) unit_registry \<Rightarrow> 'u expr \<Rightarrow> pyval \<Rightarrow> 'u error + bool" where
  "check_units_consistency R e allow_exceptions =
     (if allow_exceptions = PyBool True then
        (case get_units_tuple R e of
           Inl er \<Rightarrow> Inl er
         | Inr r \<Rightarrow> Inr True)
      else
        (case get_units_tuple R e of
           Inl er \<Rightarrow> Inr False
         | Inr r \<Rightarrow> Inr True))"

subsection \<open>The units container\<close>

text \<open>
  \<open>PyomoUnitsContainer\<close>: its pint registry, the attributes set on the instance (a name
  to a reference) and the \<open>_PyomoUnit\<close> objects created so far, each the pint unit it
  wraps; a reference is an index into them, so two lookups give the identical instance
  when they give the same reference.
\<close>

record ('u, 'd) units_container =
  container_ureg :: "('u, 'd) unit_registry"
  container_dict :: "string \<Rightarrow> nat option"
  container_objects :: "'u list"

definition new_container :: "('u, 'd) unit_registry \<Rightarrow> ('u, 'd) units_container" where
  "new_container R =
     \<lparr>container_ureg = R, container_dict = (\<lambda>item. None), container_objects = []\<rparr>"

text \<open>
  \<open>PyomoUnitsContainer.__getattr__\<close>: pint's UndefinedUnitError is caught, and the
  method ends in AttributeError whenever no unit was made; another exception of pint
  passes through.
\<close>

definition getattr_hook ::
  "('u, 'd) units_container \<Rightarrow> string \<Rightarrow> ('u error + nat) \<times> ('u, 'd) units_container" where
  "getattr_hook C item =
     (case pint_getattr (container_ureg C) item of
        Found pint_unit \<Rightarrow>
          (let unit = length (container_objects C)
           in (Inr unit,
               C\<lparr>container_objects := container_objects C @ [pint_unit],
                 container_dict := (container_dict C)(item \<mapsto> unit)\<rparr>))
      | FoundNone \<Rightarrow> (Inl (AttributeError item), C)
      | RaisesUndefinedUnit \<Rightarrow> (Inl (AttributeError item), C)
      | RaisesOther msg \<Rightarrow> (Inl (PintError msg), C))"

text \<open>
  The attribute access \<open>container.item\<close>: Python finds an attribute set on the instance
  and calls \<open>__getattr__\<close> only when there is none.
\<close>

definition container_getattr ::
  "('u, 'd) units_container \<Rightarrow> string \<Rightarrow> ('u error + nat) \<times> ('u, 'd) units_container" where
  "container_getattr C item =
     (case container_dict C item of
        Some unit \<Rightarrow> (Inr unit, C)
      | None \<Rightarrow> getattr_hook C item)"


subsection \<open>The properties, in the words of the specification\<close>

text \<open>
  The error taxonomy of the specification: UnitsError, InconsistentUnitsError, the
  TypeError of an unsupported node or function, and UndefinedUnitError.
\<close>

fun in_units_taxonomy :: "'u error \<Rightarrow> bool" where
  "in_units_taxonomy (UnitsError m) = True"
| "in_units_taxonomy (InconsistentUnitsError a b n) = True"
| "in_units_taxonomy (TypeError h) = True"
| "in_units_taxonomy UndefinedUnitError = True"
| "in_units_taxonomy e = False"

text \<open>
  Equivalence of two units in the specification's words: the same unit, or the same
  dimension and scale factors within the tolerance.
\<close>

definition units_equivalent :: "('u, 'd) visitor \<Rightarrow> 'u \<Rightarrow> 'u \<Rightarrow> bool" where
  "units_equivalent V a b =
     (pint_eq (pint_ureg V) a b
      \<or> (pint_dimensionality (pint_ureg V) a = pint_dimensionality (pint_ureg V) b
         \<and> pint_diff_magnitude (pint_ureg V) a b < units_equivalence_tolerance V))"

text \<open>
  The units of the children of a node, as the methods document them: a Pyomo unit with
  a pint unit. \<open>child_units\<close> puts them into the pairs \<open>exitNode\<close> receives.
\<close>

definition child_units :: "('u pyomo_unit \<times> 'u) list \<Rightarrow> 'u unit_tuple list" where
  "child_units cs = map (\<lambda>c. (fst c, PintUnit (snd c))) cs"



text \<open>All children pairwise equivalent, as the specification words the rule of a sum.\<close>

definition pairwise_equivalent :: "('u, 'd) visitor \<Rightarrow> ('u pyomo_unit \<times> 'u) list \<Rightarrow> bool" where
  "pairwise_equivalent V cs =
     list_all (\<lambda>x. list_all (\<lambda>y. units_equivalent V (snd x) (snd y)) cs) cs"

subsection \<open>A small registry to run the definitions on\<close>

text \<open>
  A unit of the sample registry: its symbol, its exponents of length and mass, and its
  factor to the base units. Two units are \<open>==\<close> when they are the same value; the
  difference of \<open>1.0 * lhs\<close> and \<open>1.0 * rhs\<close> is taken in the units of \<open>lhs\<close>.
\<close>

datatype sample_unit =
  SampleUnit (symbol: string) (length_exp: real) (mass_exp: real) (factor: real)

definition sample_mul :: "sample_unit \<Rightarrow> sample_unit \<Rightarrow> sample_unit" where
  "sample_mul a b =
     SampleUnit (symbol a @ ''*'' @ symbol b) (length_exp a + length_exp b)
       (mass_exp a + mass_exp b) (factor a * factor b)"

definition sample_pow :: "sample_unit \<Rightarrow> real \<Rightarrow> sample_unit" where
  "sample_pow a x =
     SampleUnit (symbol a @ ''**'') (length_exp a * x) (mass_exp a * x) (factor a powr x)"

definition sample_rdiv :: "real \<Rightarrow> sample_unit \<Rightarrow> sample_unit" where
  "sample_rdiv x a =
     SampleUnit (''1/'' @ symbol a) (- length_exp a) (- mass_exp a) (x / factor a)"

definition meter :: sample_unit where
  "meter = SampleUnit ''m'' 1 0 1"

definition kilogram :: sample_unit where
  "kilogram = SampleUnit ''kg'' 0 1 1"

definition dimensionless :: sample_unit where
  "dimensionless = SampleUnit ''dimensionless'' 0 0 1"

definition radian :: sample_unit where
  "radian = SampleUnit ''rad'' 0 0 1"

definition furlong :: sample_unit where
  "furlong = SampleUnit ''fur'' 1 0 (201168 / 1000)"

text \<open>Two lengths that differ from the meter by 6e-13 of it, one above and one below.\<close>

definition long_meter :: sample_unit where
  "long_meter = SampleUnit ''long_m'' 1 0 (1 + 6 / 10 ^ 13)"

definition short_meter :: sample_unit where
  "short_meter = SampleUnit ''short_m'' 1 0 (1 - 6 / 10 ^ 13)"

text \<open>
  The registry knows the names below and no other; pint's own registry knows many more,
  but none of the name \<open>unknown_unit\<close>.
\<close>

definition sample_ureg :: "(sample_unit, real \<times> real) unit_registry" where
  "sample_ureg =
     \<lparr>pint_eq = (\<lambda>a b. a = b),
      pint_dimensionality = (\<lambda>a. (length_exp a, mass_exp a)),
      pint_diff_magnitude = (\<lambda>a b. \<bar>1 - factor b / factor a\<bar>),
      pint_mul = sample_mul,
      pint_pow = sample_pow,
      pint_rdiv = sample_rdiv,
      pint_str = symbol,
      pint_dimensionless = dimensionless,
      pint_radians = radian,
      pint_getattr =
        (\<lambda>item.
           case map_of
                  [(''meter'', meter), (''m'', meter), (''kilogram'', kilogram), (''kg'', kilogram),
                   (''dimensionless'', dimensionless), (''radian'', radian), (''radians'', radian),
                   (''furlong'', furlong), (''long_meter'', long_meter),
                   (''short_meter'', short_meter)] item of
             Some u \<Rightarrow> Found u
           | None \<Rightarrow> RaisesUndefinedUnit)\<rparr>"

definition sample_visitor :: "(sample_unit, real \<times> real) visitor" where
  "sample_visitor = new_visitor sample_ureg"

text \<open>Leaves of the host: a variable, and a fixed parameter that has no value yet.\<close>

definition var_x :: host_attrs where
  "var_x = \<lparr>node_name = ''x'', node_fixed = False, node_constant = False, node_value = Some 3\<rparr>"

definition param_p :: host_attrs where
  "param_p = \<lparr>node_name = ''p'', node_fixed = True, node_constant = False, node_value = None\<rparr>"

definition param_two :: host_attrs where
  "param_two = \<lparr>node_name = ''two'', node_fixed = True, node_constant = False, node_value = Some 2\<rparr>"

text \<open>The attributes of an inner node: its name matters for a unary function only.\<close>

definition named :: "string \<Rightarrow> host_attrs" where
  "named n = \<lparr>node_name = n, node_fixed = False, node_constant = False, node_value = None\<rparr>"

text \<open>
  Three expressions: a length raised to a parameter that has no value, a variable raised
  to a variable, and an external function called with no argument.
\<close>

definition pow_without_value :: "sample_unit expr" where
  "pow_without_value = Node PowExpression (named ''pow'') [UnitLeaf meter, OtherLeaf param_p]"

definition pow_of_variables :: "sample_unit expr" where
  "pow_of_variables = Node PowExpression (named ''pow'') [OtherLeaf var_x, OtherLeaf var_x]"

definition call_without_arguments :: "sample_unit expr" where
  "call_without_arguments = Node ExternalFunctionExpression (named ''f'') []"

text \<open>A sum of the meter and of the two lengths that are close to it.\<close>

definition sum_of_three_lengths :: "sample_unit expr" where
  "sum_of_three_lengths =
     Node SumExpression (named ''sum'') [UnitLeaf meter, UnitLeaf long_meter, UnitLeaf short_meter]"

section \<open>Auxiliary facts\<close>

subsection \<open>The equivalence test\<close>

text \<open>On two pint units the test returns, with the answer of the specification.\<close>

lemma pint_units_equivalent_units:
  "pint_units_equivalent V (PintUnit a) (PintUnit b) = Inr (units_equivalent V a b)"
  by (simp add: units_equivalent_def)

lemma is_dimensionless_unit:
  "is_dimensionless V (PintUnit u) =
     Inr (units_equivalent V u (pint_dimensionless (pint_ureg V)))"
  by (simp add: is_dimensionless_def units_equivalent_def)

text \<open>On a Pyomo unit in slot 1 the test raises, on either side.\<close>

lemma pint_units_equivalent_pyomo:
  "pint_units_equivalent V (PyomoObj p) rhs = Inl not_a_pint_unit"
  "pint_units_equivalent V lhs (PyomoObj p) = Inl not_a_pint_unit"
  by (cases rhs) simp_all

lemma is_dimensionless_pyomo:
  "is_dimensionless V (PyomoObj p) = Inl not_a_pint_unit"
  by (simp add: is_dimensionless_def)

text \<open>The test raises nothing else.\<close>

lemma pint_units_equivalent_error:
  "pint_units_equivalent V lhs rhs = Inl e \<Longrightarrow> e = not_a_pint_unit"
  by (cases lhs; cases rhs) (auto split: if_splits)

declare pint_units_equivalent.simps [simp del]

subsection \<open>The dispatch of \<open>exitNode\<close>\<close>

lemma exitNode_leaf:
  "exitNode V (UnitLeaf u) data lin = Inr (PyomoUnit u, PintUnit u)"
  "exitNode V (OtherLeaf a) data lin =
     Inr (PyomoUnit (pint_dimensionless (pint_ureg V)), PintUnit (pint_dimensionless (pint_ureg V)))"
  "exitNode V (NativeNumeric x) data lin =
     Inr (PyomoUnit (pint_dimensionless (pint_ureg V)), PintUnit (pint_dimensionless (pint_ureg V)))"
  by (simp_all add: exitNode_def dimensionless_tuple_def)

lemma exitNode_Node:
  "exitNode V (Node t a xs) data lin =
     (case node_type_method_map t of
        Some (Method node_func) \<Rightarrow> node_func V (Node t a xs) data
      | Some LinearMethod \<Rightarrow> get_unit_for_linear_expression V (Node t a xs) data lin
      | None \<Rightarrow> Inl (TypeError (UnhandledNodeType t)))"
  by (simp add: exitNode_def split: option.splits)

lemma exitNode_unary:
  "t \<in> {UnaryFunctionExpression, NPV_UnaryFunctionExpression} \<Longrightarrow>
   exitNode V (Node t a xs) data lin =
     (if length data \<noteq> 1 then Inl AssertionError
      else (case unary_function_method_map (node_name a) of
              Some node_func \<Rightarrow> node_func V (Node t a xs) data
            | None \<Rightarrow> Inl (TypeError (UnhandledUnaryFunction (node_name a)))))"
  by (auto simp: exitNode_Node get_unit_for_unary_function_def)


lemma exitNode_absent_type:
  "(node_type_method_map t :: ('u, 'd) node_method option) = None \<Longrightarrow>
   exitNode (V :: ('u, 'd) visitor) (Node t a xs) data lin =
     Inl (TypeError (UnhandledNodeType t))"
  by (simp add: exitNode_Node)

lemma exitNode_absent_function:
  "t \<in> {UnaryFunctionExpression, NPV_UnaryFunctionExpression} \<Longrightarrow>
   (unary_function_method_map (node_name a)
      :: (('u, 'd) visitor \<Rightarrow> 'u expr \<Rightarrow> 'u unit_tuple list \<Rightarrow> 'u result) option) = None \<Longrightarrow>
   exitNode (V :: ('u, 'd) visitor) (Node t a xs) data lin =
     (if length data \<noteq> 1 then Inl AssertionError
      else Inl (TypeError (UnhandledUnaryFunction (node_name a))))"
  by (simp add: exitNode_unary)

text \<open>A node whose visit fails on every list of child units never gets a unit.\<close>

lemma walk_Node_no_unit:
  "(\<And>data. \<exists>e. exitNode V (Node t a xs) data (Inr []) = Inl e) \<Longrightarrow>
   walk_expression V (Node t a xs) \<noteq> Inr r"
proof (cases "walk_children V xs")
  case (Inl e)
  then show ?thesis by simp
next
  case (Inr data)
  assume "\<And>data. \<exists>e. exitNode V (Node t a xs) data (Inr []) = Inl e"
  then obtain e where "exitNode V (Node t a xs) data (Inr []) = Inl e" by blast
  with Inr show ?thesis by simp
qed

lemma walk_children_length:
  "walk_children V xs = Inr data \<Longrightarrow> length data = length xs"
  by (induction xs arbitrary: data) (auto split: sum.splits)

lemma unary_function_lookup:
  "unary_function_method_map ''sin'' = Some get_dimensionless_with_radians_child"
  "unary_function_method_map ''cos'' = Some get_dimensionless_with_radians_child"
  "unary_function_method_map ''tan'' = Some get_dimensionless_with_radians_child"
  "unary_function_method_map ''sinh'' = Some get_dimensionless_with_radians_child"
  "unary_function_method_map ''cosh'' = Some get_dimensionless_with_radians_child"
  "unary_function_method_map ''tanh'' = Some get_dimensionless_with_radians_child"
  "unary_function_method_map ''asin'' = Some get_radians_with_dimensionless_child"
  "unary_function_method_map ''acos'' = Some get_radians_with_dimensionless_child"
  "unary_function_method_map ''atan'' = Some get_radians_with_dimensionless_child"
  "unary_function_method_map ''asinh'' = Some get_radians_with_dimensionless_child"
  "unary_function_method_map ''acosh'' = Some get_radians_with_dimensionless_child"
  "unary_function_method_map ''atanh'' = Some get_radians_with_dimensionless_child"
  by (simp_all add: unary_function_method_map_def)

subsection \<open>The loops\<close>






text \<open>The loop over equivalent children stops at the first child that differs from child 0.\<close>

lemma equivalent_to_first_find:
  "equivalent_to_first V node (PintUnit u) (child_units cs) =
     map_option (\<lambda>d. InconsistentUnitsError (PintUnit u) (PintUnit (snd d)) node)
       (find (\<lambda>d. \<not> units_equivalent V u (snd d)) cs)"
  by (induction cs) (auto simp: child_units_def pint_units_equivalent_units)

lemma get_unit_for_equivalent_children_find:
  "get_unit_for_equivalent_children V node (child_units (c # cs)) =
     (case find (\<lambda>d. \<not> units_equivalent V (snd c) (snd d)) cs of
        None \<Rightarrow> Inr (fst c, PintUnit (snd c))
      | Some d \<Rightarrow> Inl (InconsistentUnitsError (PintUnit (snd c)) (PintUnit (snd d)) node))"
  using equivalent_to_first_find [of V node "snd c" cs]
  by (simp add: get_unit_for_equivalent_children_def child_units_def split: option.splits)

lemma pairwise_equivalent_find:
  "pairwise_equivalent V (c # cs) \<Longrightarrow>
     find (\<lambda>d. \<not> units_equivalent V (snd c) (snd d)) cs = None"
  by (auto simp: pairwise_equivalent_def find_None_iff list_all_iff)

text \<open>
  The loop over children that must be dimensionless: it raises at the first child that is
  not, and otherwise ends with the last child's pair in its variables.
\<close>

lemma dimensionless_children_loop_find:
  "dimensionless_children_loop V node bound (child_units cs) =
     (case find (\<lambda>c. \<not> units_equivalent V (snd c) (pint_dimensionless (pint_ureg V))) cs of
        Some c \<Rightarrow> Inl (UnitsError (ExpectedDimensionlessUnits node (fst c)))
      | None \<Rightarrow>
          (if cs = [] then (case bound of None \<Rightarrow> Inl UnboundLocalError | Some t \<Rightarrow> Inr t)
           else Inr (last (child_units cs))))"
  by (induction cs arbitrary: bound)
    (auto simp: child_units_def is_dimensionless_unit split: option.splits)

text \<open>
  A pow node over a base and an exponent that are both equivalent to dimensionless,
  whatever the registry: slot 1 of the result is the exponent's Pyomo unit.
\<close>

lemma get_unit_for_pow_dimensionless_base:
  "units_equivalent V exponent_unit (pint_dimensionless (pint_ureg V)) \<Longrightarrow>
   units_equivalent V base_unit (pint_dimensionless (pint_ureg V)) \<Longrightarrow>
   get_unit_for_pow V node
     [(pyomo_unit_base, PintUnit base_unit), (pyomo_unit_exponent, PintUnit exponent_unit)] =
   Inr (pyomo_unit_base, PyomoObj pyomo_unit_exponent)"
  by (simp add: get_unit_for_pow_def is_dimensionless_unit)

subsection \<open>The sample registry\<close>

lemmas sample_defs =
  sample_visitor_def new_visitor_def sample_ureg_def meter_def kilogram_def dimensionless_def
  radian_def long_meter_def short_meter_def sample_mul_def sample_pow_def sample_rdiv_def
  var_x_def param_p_def param_two_def named_def

lemma sample_fields:
  "pint_ureg sample_visitor = sample_ureg"
  "pint_dimensionless sample_ureg = dimensionless"
  "pint_radians sample_ureg = radian"
  "pint_mul sample_ureg = sample_mul"
  "pint_pow sample_ureg = sample_pow"
  by (simp_all add: sample_visitor_def new_visitor_def sample_ureg_def)

lemma sample_equiv:
  "units_equivalent sample_visitor meter long_meter"
  "units_equivalent sample_visitor meter short_meter"
  "\<not> units_equivalent sample_visitor long_meter short_meter"
  "units_equivalent sample_visitor meter meter"
  "\<not> units_equivalent sample_visitor meter kilogram"
  "\<not> units_equivalent sample_visitor meter radian"
  "\<not> units_equivalent sample_visitor meter dimensionless"
  "\<not> units_equivalent sample_visitor kilogram dimensionless"
  "units_equivalent sample_visitor radian radian"
  "units_equivalent sample_visitor radian dimensionless"
  "units_equivalent sample_visitor dimensionless radian"
  "units_equivalent sample_visitor dimensionless dimensionless"
  by (simp_all add: units_equivalent_def sample_defs)


lemma sample_getattr:
  "pint_getattr sample_ureg ''unknown_unit'' = RaisesUndefinedUnit"
  "pint_getattr sample_ureg ''meter'' = Found meter"
  by (simp_all add: sample_ureg_def)

lemma new_container_fields:
  "container_dict (new_container R) item = None"
  "container_ureg (new_container R) = R"
  "container_objects (new_container R) = []"
  by (simp_all add: new_container_def)

lemma sample_walk:
  "get_units_tuple sample_ureg e = walk_expression sample_visitor e"
  by (simp add: get_units_tuple_def sample_visitor_def)

lemma walk_pow_without_value:
  "get_units_tuple sample_ureg pow_without_value = Inl ValueError"
  by (simp add: sample_walk pow_without_value_def exitNode_leaf exitNode_Node
      get_unit_for_pow_def is_dimensionless_unit sample_fields sample_equiv arg1_def param_p_def)

lemma walk_call_without_arguments:
  "get_units_tuple sample_ureg call_without_arguments = Inl UnboundLocalError"
  by (simp add: call_without_arguments_def get_units_tuple_def exitNode_Node
      get_dimensionless_with_dimensionless_children_def)

lemma walk_pow_of_variables:
  "walk_expression sample_visitor pow_of_variables =
     Inr (PyomoUnit dimensionless, PyomoObj (PyomoUnit dimensionless))"
  by (simp add: pow_of_variables_def exitNode_leaf exitNode_Node get_unit_for_pow_def
      is_dimensionless_unit sample_fields sample_equiv)

text \<open>
  What follows a pow node with a dimensionless base: its pair holds a Pyomo unit in
  slot 1, and the node above it raises AttributeError from its first equivalence test.
  Here a variable to the power of a variable, as a term of a sum, as a factor of a
  product, as the argument of sin and as the exponent of a length.
\<close>

lemma walk_above_pow_of_variables:
  "walk_expression sample_visitor
     (Node SumExpression (named ''sum'') [pow_of_variables, NativeNumeric 1]) =
   Inl not_a_pint_unit"
  "walk_expression sample_visitor
     (Node SumExpression (named ''sum'') [NativeNumeric 1, pow_of_variables]) =
   Inl not_a_pint_unit"
  "walk_expression sample_visitor
     (Node ProductExpression (named ''prod'') [pow_of_variables, UnitLeaf meter]) =
   Inl not_a_pint_unit"
  "walk_expression sample_visitor
     (Node UnaryFunctionExpression (named ''sin'') [pow_of_variables]) =
   Inl not_a_pint_unit"
  "walk_expression sample_visitor
     (Node PowExpression (named ''pow'') [UnitLeaf meter, pow_of_variables]) =
   Inl not_a_pint_unit"
  by (simp_all add: walk_pow_of_variables exitNode_leaf exitNode_Node named_def
      get_unit_for_equivalent_children_def get_unit_for_product_def
      get_unit_for_unary_function_def unary_function_lookup
      get_dimensionless_with_radians_child_def get_unit_for_pow_def is_dimensionless_pyomo
      is_dimensionless_unit pint_units_equivalent_pyomo sample_fields sample_equiv)

section \<open>The claims\<close>

subsection \<open>C1: what the boolean mode of \<open>check_units_consistency\<close> catches\<close>

text \<open>
  C1, as the code has it. With \<open>allow_exceptions = False\<close> the function returns True
  exactly when the walk raises nothing and False exactly when the walk raises an
  exception, of any kind; in this mode no exception reaches the caller.
\<close>

theorem check_units_consistency_swallows_every_exception:
  "(check_units_consistency R T (PyBool False) = Inr True
      \<longleftrightarrow> (\<exists>r. get_units_tuple R T = Inr r))
   \<and> (check_units_consistency R T (PyBool False) = Inr False
      \<longleftrightarrow> (\<exists>e. get_units_tuple R T = Inl e))
   \<and> (\<forall>e. check_units_consistency R T (PyBool False) \<noteq> Inl e)"
  by (cases "get_units_tuple R T") (auto simp: check_units_consistency_def)

text \<open>
  C1 as stated fails: the walk of a length raised to a parameter without a value ends in
  the host's ValueError, and the walk of an external function without arguments ends in
  UnboundLocalError; neither is in the taxonomy of units errors, and the function
  returns False for both instead of letting them through.
\<close>

theorem check_units_consistency_masks_other_exceptions:
  "get_units_tuple sample_ureg pow_without_value = Inl ValueError
   \<and> \<not> in_units_taxonomy (ValueError :: sample_unit error)
   \<and> check_units_consistency sample_ureg pow_without_value (PyBool False) = Inr False
   \<and> get_units_tuple sample_ureg call_without_arguments = Inl UnboundLocalError
   \<and> \<not> in_units_taxonomy (UnboundLocalError :: sample_unit error)
   \<and> check_units_consistency sample_ureg call_without_arguments (PyBool False) = Inr False"
  by (simp add: walk_pow_without_value walk_call_without_arguments check_units_consistency_def)

subsection \<open>C2: a power with a dimensionless base\<close>

text \<open>
  C2 at a variable raised to a variable: base and exponent are dimensionless, the walk
  succeeds, and the pair it returns holds the dimensionless Pyomo unit twice: slot 1 is
  the exponent's Pyomo unit, not the dimensionless unit of pint that the claim and the
  method's own comment promise.
\<close>

theorem pow_dimensionless_base_pint_slot:
  "get_units_tuple sample_ureg pow_of_variables =
     Inr (PyomoUnit dimensionless, PyomoObj (PyomoUnit dimensionless))
   \<and> get_units_tuple sample_ureg pow_of_variables \<noteq> Inr (dimensionless_tuple sample_visitor)"
  by (simp add: sample_walk walk_pow_of_variables dimensionless_tuple_def sample_fields)

subsection \<open>C3: a power with a base that has units\<close>



subsection \<open>C4: equality, inequality, ranged and sum nodes\<close>

text \<open>
  C4, as the code has it. At an equality, inequality, ranged or sum node whose children
  have units, at least one child: every later child is compared with the first child
  only. When each is equivalent to it the result is the first child's unit; otherwise
  the node raises InconsistentUnitsError with the first child's unit, the unit of the
  first child that is not equivalent to it, and the node. Children that are pairwise
  equivalent give the first child's unit.
\<close>

theorem equivalent_children_compared_with_first:
  "t \<in> {EqualityExpression, InequalityExpression, RangedExpression, SumExpression,
         NPV_SumExpression} \<Longrightarrow>
   exitNode V (Node t a xs) (child_units (c # cs)) lin =
     (case find (\<lambda>d. \<not> units_equivalent V (snd c) (snd d)) cs of
        None \<Rightarrow> Inr (fst c, PintUnit (snd c))
      | Some d \<Rightarrow>
          Inl (InconsistentUnitsError (PintUnit (snd c)) (PintUnit (snd d)) (Node t a xs)))
   \<and> (pairwise_equivalent V (c # cs) \<longrightarrow>
        exitNode V (Node t a xs) (child_units (c # cs)) lin = Inr (fst c, PintUnit (snd c)))"
  by (auto simp: exitNode_Node get_unit_for_equivalent_children_find pairwise_equivalent_find)

text \<open>A sum of two lengths in meter, and a sum of two lengths and a mass.\<close>

theorem equivalent_children_compared_with_first_witness:
  "SumExpression \<in> {EqualityExpression, InequalityExpression, RangedExpression, SumExpression,
                     NPV_SumExpression}
   \<and> pairwise_equivalent sample_visitor [(PyomoUnit meter, meter), (PyomoUnit meter, meter)]
   \<and> exitNode sample_visitor
        (Node SumExpression (named ''sum'') [UnitLeaf meter, UnitLeaf meter])
        [(PyomoUnit meter, PintUnit meter), (PyomoUnit meter, PintUnit meter)] (Inr []) =
      Inr (PyomoUnit meter, PintUnit meter)
   \<and> exitNode sample_visitor
        (Node SumExpression (named ''sum'') [UnitLeaf meter, UnitLeaf meter, UnitLeaf kilogram])
        [(PyomoUnit meter, PintUnit meter), (PyomoUnit meter, PintUnit meter),
         (PyomoUnit kilogram, PintUnit kilogram)] (Inr []) =
      Inl (InconsistentUnitsError (PintUnit meter) (PintUnit kilogram)
             (Node SumExpression (named ''sum'')
                [UnitLeaf meter, UnitLeaf meter, UnitLeaf kilogram]))"
  using
    equivalent_children_compared_with_first
      [where t = SumExpression and V = sample_visitor and a = "named ''sum''"
        and xs = "[UnitLeaf meter, UnitLeaf meter]"
        and lin = "Inr []" and c = "(PyomoUnit meter, meter)"
        and cs = "[(PyomoUnit meter, meter)]"]
    equivalent_children_compared_with_first
      [where t = SumExpression and V = sample_visitor and a = "named ''sum''"
        and xs = "[UnitLeaf meter, UnitLeaf meter, UnitLeaf kilogram]"
        and lin = "Inr []" and c = "(PyomoUnit meter, meter)"
        and cs = "[(PyomoUnit meter, meter), (PyomoUnit kilogram, kilogram)]"]
  by (simp add: pairwise_equivalent_def child_units_def sample_equiv)

text \<open>
  C4 as stated fails. The equivalence has a tolerance and is not transitive: a length
  6e-13 longer than the meter and one 6e-13 shorter are each equivalent to the meter
  and not to each other. The three children of this sum are not pairwise equivalent,
  and the walk of the sum returns the meter without raising.
\<close>

theorem equivalent_children_not_pairwise:
  "\<not> pairwise_equivalent sample_visitor
        [(PyomoUnit meter, meter), (PyomoUnit long_meter, long_meter),
         (PyomoUnit short_meter, short_meter)]
   \<and> walk_children sample_visitor [UnitLeaf meter, UnitLeaf long_meter, UnitLeaf short_meter] =
        Inr [(PyomoUnit meter, PintUnit meter), (PyomoUnit long_meter, PintUnit long_meter),
             (PyomoUnit short_meter, PintUnit short_meter)]
   \<and> get_units_tuple sample_ureg sum_of_three_lengths = Inr (PyomoUnit meter, PintUnit meter)"
  by (simp add: pairwise_equivalent_def sample_equiv sample_walk sum_of_three_lengths_def
      exitNode_leaf exitNode_Node get_unit_for_equivalent_children_def
      pint_units_equivalent_units)

subsection \<open>C5: product and monomial-term nodes\<close>



subsection \<open>C6: external calls and item access\<close>

text \<open>
  C6 at an external function called with no argument: the loop over the children never
  binds its variables, the \<open>return (pyomo_unit, pint_unit)\<close> after it raises
  UnboundLocalError, and the walk of the call fails, in any registry. The claim and the
  method's docstring say that the call succeeds with dimensionless.
\<close>

theorem external_call_without_arguments:
  "get_units_tuple R (Node ExternalFunctionExpression a []) = Inl UnboundLocalError
   \<and> exitNode V (Node ExternalFunctionExpression a xs) [] lin = Inl UnboundLocalError
   \<and> exitNode V (Node NPV_ExternalFunctionExpression a xs) [] lin = Inl UnboundLocalError
   \<and> exitNode V (Node GetItemExpression a xs) [] lin = Inl UnboundLocalError"
  by (simp add: get_units_tuple_def exitNode_Node
      get_dimensionless_with_dimensionless_children_def)

subsection \<open>C7: trigonometric functions and their inverses\<close>



subsection \<open>C8: node types and function names outside the tables\<close>

text \<open>
  C8. A node that is not a leaf and whose type is not a key of \<open>node_type_method_map\<close>
  raises the TypeError that names the type, whatever the units of its children; a
  unary function node whose name is not a key of \<open>unary_function_method_map\<close> raises
  the TypeError that names the function; and the walk of either never returns a unit.
\<close>

theorem unhandled_node_raises_TypeError:
  "((node_type_method_map t :: ('u, 'd) node_method option) = None \<longrightarrow>
      exitNode (V :: ('u, 'd) visitor) (Node t a xs) data lin = Inl (TypeError (UnhandledNodeType t))
      \<and> (\<forall>r. walk_expression V (Node t a xs) \<noteq> Inr r))
   \<and> (t \<in> {UnaryFunctionExpression, NPV_UnaryFunctionExpression}
        \<and> (unary_function_method_map (node_name a)
              :: (('u, 'd) visitor \<Rightarrow> 'u expr \<Rightarrow> 'u unit_tuple list \<Rightarrow> 'u result) option) = None \<longrightarrow>
      (length data = 1 \<longrightarrow>
         exitNode V (Node t a xs) data lin = Inl (TypeError (UnhandledUnaryFunction (node_name a))))
      \<and> (\<forall>r. walk_expression V (Node t a xs) \<noteq> Inr r))"
proof (intro conjI impI allI)
  assume absent: "(node_type_method_map t :: ('u, 'd) node_method option) = None"
  show "exitNode V (Node t a xs) data lin = Inl (TypeError (UnhandledNodeType t))"
    using absent by (rule exitNode_absent_type)
  fix r
  show "walk_expression V (Node t a xs) \<noteq> Inr r"
    by (rule walk_Node_no_unit) (simp add: exitNode_absent_type [OF absent])
next
  assume unary: "t \<in> {UnaryFunctionExpression, NPV_UnaryFunctionExpression}
        \<and> (unary_function_method_map (node_name a)
              :: (('u, 'd) visitor \<Rightarrow> 'u expr \<Rightarrow> 'u unit_tuple list \<Rightarrow> 'u result) option) = None"
  assume "length data = 1"
  then show "exitNode V (Node t a xs) data lin =
      Inl (TypeError (UnhandledUnaryFunction (node_name a)))"
    using unary by (simp add: exitNode_absent_function)
next
  fix r
  assume unary: "t \<in> {UnaryFunctionExpression, NPV_UnaryFunctionExpression}
        \<and> (unary_function_method_map (node_name a)
              :: (('u, 'd) visitor \<Rightarrow> 'u expr \<Rightarrow> 'u unit_tuple list \<Rightarrow> 'u result) option) = None"
  show "walk_expression V (Node t a xs) \<noteq> Inr r"
    by (rule walk_Node_no_unit) (use unary in \<open>simp add: exitNode_absent_function\<close>)
qed

text \<open>A division node, whose class is not in the table, and the function erf.\<close>

theorem unhandled_node_raises_TypeError_witness:
  "(node_type_method_map (OtherExpression ''DivisionExpression'')
      :: (sample_unit, real \<times> real) node_method option) = None
   \<and> exitNode sample_visitor (Node (OtherExpression ''DivisionExpression'') (named ''div'')
        [UnitLeaf meter, UnitLeaf kilogram])
        [(PyomoUnit meter, PintUnit meter), (PyomoUnit kilogram, PintUnit kilogram)] (Inr []) =
      Inl (TypeError (UnhandledNodeType (OtherExpression ''DivisionExpression'')))
   \<and> UnaryFunctionExpression \<in> {UnaryFunctionExpression, NPV_UnaryFunctionExpression}
   \<and> (unary_function_method_map (node_name (named ''erf''))
        :: ((sample_unit, real \<times> real) visitor \<Rightarrow> sample_unit expr \<Rightarrow>
            sample_unit unit_tuple list \<Rightarrow> sample_unit result) option) = None
   \<and> length [(PyomoUnit meter, PintUnit meter)] = 1
   \<and> exitNode sample_visitor (Node UnaryFunctionExpression (named ''erf'') [UnitLeaf meter])
        [(PyomoUnit meter, PintUnit meter)] (Inr []) =
      Inl (TypeError (UnhandledUnaryFunction ''erf''))"
  using
    unhandled_node_raises_TypeError
      [where t = "OtherExpression ''DivisionExpression''" and V = sample_visitor
        and a = "named ''div''" and xs = "[UnitLeaf meter, UnitLeaf kilogram]"
        and data = "[(PyomoUnit meter, PintUnit meter), (PyomoUnit kilogram, PintUnit kilogram)]"
        and lin = "Inr []"]
    unhandled_node_raises_TypeError
      [where t = UnaryFunctionExpression and V = sample_visitor and a = "named ''erf''"
        and xs = "[UnitLeaf meter]" and data = "[(PyomoUnit meter, PintUnit meter)]"
        and lin = "Inr []"]
  by (simp add: named_def unary_function_method_map_def)

subsection \<open>C9: looking a unit up on the container\<close>

text \<open>
  C9, as the code has it. For a name that is not yet an attribute of the container: when
  the pint registry does not know the name (it raises UndefinedUnitError), the lookup
  fails with AttributeError for that name and leaves the container as it was; when the
  registry knows the name, the lookup returns a new unit that wraps the registry's unit,
  and a second lookup of the name on the container so updated returns the identical
  instance.
\<close>

theorem container_getattr_lookup:
  "container_dict C item = None \<Longrightarrow>
   (pint_getattr (container_ureg C) item = RaisesUndefinedUnit \<longrightarrow>
      container_getattr C item = (Inl (AttributeError item), C))
   \<and> (pint_getattr (container_ureg C) item = Found u \<longrightarrow>
        fst (container_getattr C item) = Inr (length (container_objects C))
        \<and> container_objects (snd (container_getattr C item)) ! length (container_objects C) = u
        \<and> container_getattr (snd (container_getattr C item)) item =
            (Inr (length (container_objects C)), snd (container_getattr C item)))"
  by (auto simp: container_getattr_def getattr_hook_def Let_def)

text \<open>
  On a new container of the sample registry: \<open>unknown_unit\<close>, a name no unit has, and
  the meter twice.
\<close>

theorem container_getattr_lookup_witness:
  "container_dict (new_container sample_ureg) ''unknown_unit'' = None
   \<and> pint_getattr (container_ureg (new_container sample_ureg)) ''unknown_unit'' =
        RaisesUndefinedUnit
   \<and> container_getattr (new_container sample_ureg) ''unknown_unit'' =
        (Inl (AttributeError ''unknown_unit''), new_container sample_ureg)
   \<and> container_dict (new_container sample_ureg) ''meter'' = None
   \<and> pint_getattr (container_ureg (new_container sample_ureg)) ''meter'' = Found meter
   \<and> fst (container_getattr (new_container sample_ureg) ''meter'') = Inr 0
   \<and> container_objects (snd (container_getattr (new_container sample_ureg) ''meter'')) ! 0 = meter
   \<and> fst (container_getattr (snd (container_getattr (new_container sample_ureg) ''meter''))
        ''meter'') = Inr 0"
  using
    container_getattr_lookup [where C = "new_container sample_ureg"
      and item = "''unknown_unit''" and u = meter]
    container_getattr_lookup [where C = "new_container sample_ureg" and item = "''meter''"
      and u = meter]
  by (simp add: new_container_fields sample_getattr)

text \<open>
  C9 as stated fails: the registry raises UndefinedUnitError for the name
  \<open>unknown_unit\<close>, and the lookup on the container fails with AttributeError, not with
  UndefinedUnitError.
\<close>

theorem container_getattr_unknown_name:
  "pint_getattr sample_ureg ''unknown_unit'' = RaisesUndefinedUnit
   \<and> fst (container_getattr (new_container sample_ureg) ''unknown_unit'') =
        Inl (AttributeError ''unknown_unit'')
   \<and> fst (container_getattr (new_container sample_ureg) ''unknown_unit'') \<noteq>
        Inl UndefinedUnitError"
  by (simp add: container_getattr_def getattr_hook_def new_container_fields sample_getattr)

subsection \<open>C10: how \<open>check_units_consistency\<close> reads \<open>allow_exceptions\<close>\<close>

text \<open>
  C10. Every value of \<open>allow_exceptions\<close> other than the object True takes the branch
  that swallows exceptions: the function returns a boolean, False when the walk raises
  and True when it does not. Only True itself lets the exception of the walk through.
\<close>

theorem allow_exceptions_is_True:
  "(allow_exceptions \<noteq> PyBool True \<longrightarrow>
      check_units_consistency R T allow_exceptions =
        Inr (case get_units_tuple R T of Inl e \<Rightarrow> False | Inr r \<Rightarrow> True))
   \<and> check_units_consistency R T (PyBool True) =
        (case get_units_tuple R T of Inl e \<Rightarrow> Inl e | Inr r \<Rightarrow> Inr True)"
  by (auto simp: check_units_consistency_def split: sum.splits)

text \<open>
  The truthy values 1 and a non-empty string on an expression whose walk raises
  ValueError, against True on the same expression.
\<close>

theorem allow_exceptions_is_True_witness:
  "PyInt 1 \<noteq> PyBool True
   \<and> check_units_consistency sample_ureg pow_without_value (PyInt 1) = Inr False
   \<and> PyStr ''yes'' \<noteq> PyBool True
   \<and> check_units_consistency sample_ureg pow_without_value (PyStr ''yes'') = Inr False
   \<and> check_units_consistency sample_ureg pow_without_value (PyBool True) = Inl ValueError"
  using
    allow_exceptions_is_True [where allow_exceptions = "PyInt 1" and R = sample_ureg
      and T = pow_without_value]
    allow_exceptions_is_True [where allow_exceptions = "PyStr ''yes''" and R = sample_ureg
      and T = pow_without_value]
  by (simp add: walk_pow_without_value)

end
